theory Spec2Isabelle
  imports Complex_Main "HOL-Library.Log_Nat"
begin

section \<open>Values of the program\<close>

text \<open>
  The module \<^verbatim>\<open>inttrack.py\<close> wraps Python numbers so that arithmetic on them is
  evaluated and, at the same time, recorded as a tree of named tuples. The embedding
  follows the Python 3 reading of the module (the operator \<^verbatim>\<open>/\<close> is
  \<^verbatim>\<open>__truediv__\<close>; the branch under \<^verbatim>\<open>sys.version_info[0] == 2\<close> is not taken).

  Exceptions are values: every function that can raise returns \<open>error + 'a\<close>, with
  \<open>Inl\<close> for the exception raised.
\<close>

datatype error =
    TypeError
  | ValueError
  | ZeroDivisionError
  | OverflowError
  | KeyError string
  | IndexError
  | InvalidOperation
  | DivisionByZero
  | Overflow
  | Unmodelled

text \<open>
  A finite \<^verbatim>\<open>decimal.Decimal\<close> is a sign, a coefficient and an exponent; its value is
  \<open>\<plusminus> coefficient * 10 ^ exponent\<close>. The special values (NaN, infinities) are not part
  of the model.
\<close>

datatype decimal = Dec (dsign: bool) (coeff: nat) (dexp: int)

text \<open>
  The Python objects the module handles:
  \<^item> \<open>PInt\<close>: a plain \<^verbatim>\<open>int\<close>;
  \<^item> \<open>PFloat\<close>: a finite \<^verbatim>\<open>float\<close>, given by the exact value of the double;
  \<^item> \<open>PDec\<close>: a plain finite \<^verbatim>\<open>Decimal\<close>;
  \<^item> \<open>IntTrack\<close>: an instance of \<^verbatim>\<open>class IntTrack(int)\<close>, its integer value and its
    attribute \<^verbatim>\<open>operations\<close> (\<open>None\<close> is Python's \<^verbatim>\<open>None\<close>);
  \<^item> \<open>DecimalTrack\<close>: an instance of \<^verbatim>\<open>class DecimalTrack(Decimal)\<close>, likewise;
  \<^item> \<open>PTuple\<close>: a tuple, given by the name of its class and its items. The seven
    \<^verbatim>\<open>namedtuple\<close> classes of the module are tuples of this kind; a plain tuple has
    the class name \<^verbatim>\<open>tuple\<close>.
\<close>

datatype pyval =
    PInt int
  | PFloat rat
  | PDec decimal
  | IntTrack int "pyval option"
  | DecimalTrack decimal "pyval option"
  | PTuple string "pyval list"

subsection \<open>The named tuples (lines 19 to 26)\<close>

definition abs_nt :: "pyval \<Rightarrow> pyval" where
  "abs_nt lhs = PTuple ''abs'' [lhs]"

definition neg :: "pyval \<Rightarrow> pyval" where
  "neg lhs = PTuple ''neg'' [lhs]"

definition add :: "pyval \<Rightarrow> pyval \<Rightarrow> pyval" where
  "add lhs rhs = PTuple ''add'' [lhs, rhs]"

definition div_nt :: "pyval \<Rightarrow> pyval \<Rightarrow> pyval" where
  "div_nt lhs rhs = PTuple ''div'' [lhs, rhs]"

definition mod_nt :: "pyval \<Rightarrow> pyval \<Rightarrow> pyval" where
  "mod_nt lhs rhs = PTuple ''mod'' [lhs, rhs]"

definition mul :: "pyval \<Rightarrow> pyval \<Rightarrow> pyval" where
  "mul lhs rhs = PTuple ''mul'' [lhs, rhs]"

definition sub :: "pyval \<Rightarrow> pyval \<Rightarrow> pyval" where
  "sub lhs rhs = PTuple ''sub'' [lhs, rhs]"

section \<open>The built-ins the module calls\<close>

subsection \<open>Rounding to an integer\<close>

definition trunc :: "rat \<Rightarrow> int" where
  \<comment> \<open>rounding toward zero, as \<^verbatim>\<open>int(x)\<close> does on a float or a Decimal\<close>
  "trunc q = (if 0 \<le> q then \<lfloor>q\<rfloor> else \<lceil>q\<rceil>)"

definition round_half_even :: "rat \<Rightarrow> int" where
  "round_half_even q =
     (let f = \<lfloor>q\<rfloor>; r = q - of_int f
      in if r < 1 / 2 then f
         else if 1 / 2 < r then f + 1
         else if even f then f else f + 1)"

definition pow2 :: "int \<Rightarrow> rat" where
  "pow2 e = (if 0 \<le> e then 2 ^ nat e else 1 / 2 ^ nat (- e))"

definition pow10 :: "int \<Rightarrow> rat" where
  "pow10 e = (if 0 \<le> e then 10 ^ nat e else 1 / 10 ^ nat (- e))"

subsection \<open>Floats: binary64\<close>

definition ilog2 :: "rat \<Rightarrow> int" where
  \<comment> \<open>for \<open>0 < q\<close>: the \<open>e\<close> with \<open>2 ^ e \<le> q < 2 ^ (e + 1)\<close>\<close>
  "ilog2 q =
     (let (a, b) = quotient_of q;
          e0 = bitlen a - bitlen b
      in if pow2 e0 \<le> q then e0 else e0 - 1)"

definition round64 :: "rat \<Rightarrow> error + rat" where
  \<comment> \<open>the double nearest to \<open>q\<close>, ties to even: 53 significant bits, the least
      exponent of a bit being \<open>-1074\<close>; \<^verbatim>\<open>OverflowError\<close> beyond the largest double\<close>
  "round64 q =
     (if q = 0 then Inr 0
      else let p = max (ilog2 \<bar>q\<bar> - 52) (- 1074);
               r = of_int (round_half_even (q / pow2 p)) * pow2 p
           in if pow2 1024 \<le> \<bar>r\<bar> then Inl OverflowError else Inr r)"

subsection \<open>Decimals\<close>

definition dec_val :: "decimal \<Rightarrow> rat" where
  "dec_val d = (if dsign d then - 1 else 1) * of_nat (coeff d) * pow10 (dexp d)"

definition dec_int :: "decimal \<Rightarrow> int" where
  \<comment> \<open>\<^verbatim>\<open>Decimal.__int__\<close>: the value truncated toward zero\<close>
  "dec_int d =
     (let s = (if dsign d then - 1 else 1)
      in if 0 \<le> dexp d then s * int (coeff d) * 10 ^ nat (dexp d)
         else s * (int (coeff d) div 10 ^ nat (- dexp d)))"

definition from_float :: "rat \<Rightarrow> decimal" where
  \<comment> \<open>\<^verbatim>\<open>Decimal(f)\<close> on a float is exact: with \<open>|f| = n / 2 ^ k\<close> in lowest terms the
      result is \<open>n * 5 ^ k\<close> with exponent \<open>- k\<close>\<close>
  "from_float f =
     (let (n, d) = quotient_of \<bar>f\<bar>;
          k = nat (bitlen d - 1)
      in Dec (f < 0) (nat n * 5 ^ k) (- int k))"

subsection \<open>The conversions \<^verbatim>\<open>int(x)\<close> and \<^verbatim>\<open>Decimal(x)\<close>\<close>

fun int_value :: "pyval \<Rightarrow> error + int" where
  "int_value (PInt i) = Inr i"
| "int_value (PFloat f) = Inr (trunc f)"
| "int_value (PDec d) = Inr (dec_int d)"
| "int_value (IntTrack i ops) = Inr i"
| "int_value (DecimalTrack d ops) = Inr (dec_int d)"
| "int_value (PTuple n xs) = Inl TypeError"

definition int_ty :: "pyval \<Rightarrow> error + pyval" where
  \<comment> \<open>the type \<^verbatim>\<open>int\<close> called as a function: the result is a plain int\<close>
  "int_ty x = (case int_value x of Inl e \<Rightarrow> Inl e | Inr i \<Rightarrow> Inr (PInt i))"

fun decimal_value :: "pyval \<Rightarrow> error + decimal" where
  "decimal_value (PInt i) = Inr (Dec (i < 0) (nat \<bar>i\<bar>) 0)"
| "decimal_value (PFloat f) = Inr (from_float f)"
| "decimal_value (PDec d) = Inr d"
| "decimal_value (IntTrack i ops) = Inr (Dec (i < 0) (nat \<bar>i\<bar>) 0)"
| "decimal_value (DecimalTrack d ops) = Inr d"
| "decimal_value (PTuple n xs) = Inl (if length xs = 3 then Unmodelled else ValueError)"

text \<open>
  \<^verbatim>\<open>Decimal(x)\<close> is exact on every number. On a tuple it expects the triple (sign,
  digits, exponent) and raises \<^verbatim>\<open>ValueError\<close> on any other length; the reading of a
  triple is left out of the model.
\<close>

definition Decimal :: "pyval \<Rightarrow> error + pyval" where
  \<comment> \<open>the type \<^verbatim>\<open>Decimal\<close> called as a function: the result is a plain Decimal\<close>
  "Decimal x = (case decimal_value x of Inl e \<Rightarrow> Inl e | Inr d \<Rightarrow> Inr (PDec d))"

subsection \<open>Arithmetic of \<^verbatim>\<open>int\<close>\<close>

text \<open>
  Python's integers are unbounded. \<^verbatim>\<open>%\<close> takes the sign of the divisor, as \<open>mod\<close> does
  on \<open>int\<close>; \<^verbatim>\<open>/\<close> on two integers is the correctly rounded double of the exact quotient.
\<close>

definition int_mod :: "int \<Rightarrow> int \<Rightarrow> error + pyval" where
  "int_mod a b = (if b = 0 then Inl ZeroDivisionError else Inr (PInt (a mod b)))"

definition int_truediv :: "int \<Rightarrow> int \<Rightarrow> error + pyval" where
  "int_truediv a b =
     (if b = 0 then Inl ZeroDivisionError
      else case round64 (of_int a / of_int b) of
             Inl e \<Rightarrow> Inl e
           | Inr f \<Rightarrow> Inr (PFloat f))"

subsection \<open>Arithmetic of \<^verbatim>\<open>Decimal\<close> in the default context\<close>

text \<open>
  The default context: 28 significant digits, rounding half to even, exponents between
  \<open>Emin\<close> and \<open>Emax\<close>, and the traps \<^verbatim>\<open>InvalidOperation\<close>, \<^verbatim>\<open>DivisionByZero\<close> and
  \<^verbatim>\<open>Overflow\<close> enabled (the other signals are not raised as exceptions).
\<close>

definition prec :: int where "prec = 28"
definition Emax :: int where "Emax = 999999"
definition Emin :: int where "Emin = - 999999"
definition Etiny :: int where "Etiny = Emin - prec + 1"
definition Etop :: int where "Etop = Emax - prec + 1"

fun ndigits :: "nat \<Rightarrow> nat" where
  "ndigits n = (if n < 10 then 1 else Suc (ndigits (n div 10)))"

declare ndigits.simps [simp del]

definition adjusted :: "decimal \<Rightarrow> int" where
  "adjusted d = dexp d + int (ndigits (coeff d)) - 1"

definition dec_fix :: "decimal \<Rightarrow> error + decimal" where
  \<comment> \<open>the rounding every operation ends with: at most \<open>prec\<close> digits, half to even\<close>
  "dec_fix d =
     (if coeff d = 0 then Inr (Dec (dsign d) 0 (min (max (dexp d) Etiny) Emax))
      else
        let exp_min0 = int (ndigits (coeff d)) + dexp d - prec
        in if Etop < exp_min0 then Inl Overflow
           else
             let exp_min = max exp_min0 Etiny
             in if dexp d < exp_min then
                  let k = nat (exp_min - dexp d);
                      q = coeff d div 10 ^ k;
                      r = coeff d mod 10 ^ k;
                      up = (10 ^ k < 2 * r \<or> (2 * r = 10 ^ k \<and> odd q));
                      c = (if up then q + 1 else q);
                      long = (up \<and> prec < int (ndigits c));
                      c' = (if long then c div 10 else c);
                      exp_min' = (if long then exp_min + 1 else exp_min)
                  in if Etop < exp_min' then Inl Overflow
                     else Inr (Dec (dsign d) c' exp_min')
                else Inr d)"

definition dec_signed :: "decimal \<Rightarrow> int" where
  "dec_signed d = (if dsign d then - int (coeff d) else int (coeff d))"

definition dec_add :: "decimal \<Rightarrow> decimal \<Rightarrow> error + decimal" where
  "dec_add a b =
     (let e = min (dexp a) (dexp b);
          s = dec_signed a * 10 ^ nat (dexp a - e) + dec_signed b * 10 ^ nat (dexp b - e);
          sg = (if s = 0 then dsign a \<and> dsign b \<and> coeff a = 0 \<and> coeff b = 0 else s < 0)
      in dec_fix (Dec sg (nat \<bar>s\<bar>) e))"

definition dec_sub :: "decimal \<Rightarrow> decimal \<Rightarrow> error + decimal" where
  "dec_sub a b = dec_add a (Dec (\<not> dsign b) (coeff b) (dexp b))"

definition dec_mul :: "decimal \<Rightarrow> decimal \<Rightarrow> error + decimal" where
  "dec_mul a b = dec_fix (Dec (dsign a \<noteq> dsign b) (coeff a * coeff b) (dexp a + dexp b))"

fun strip_zeros :: "nat \<Rightarrow> nat \<Rightarrow> int \<Rightarrow> nat \<times> int" where
  \<comment> \<open>an exact quotient is brought as close to the ideal exponent as its zeros allow\<close>
  "strip_zeros 0 c e = (c, e)"
| "strip_zeros (Suc n) c e = (if c mod 10 = 0 then strip_zeros n (c div 10) (e + 1) else (c, e))"

definition dec_truediv :: "decimal \<Rightarrow> decimal \<Rightarrow> error + decimal" where
  "dec_truediv a b =
     (let sg = (dsign a \<noteq> dsign b)
      in if coeff b = 0 then (if coeff a = 0 then Inl InvalidOperation else Inl DivisionByZero)
         else if coeff a = 0 then dec_fix (Dec sg 0 (dexp a - dexp b))
         else
           let shift = int (ndigits (coeff b)) - int (ndigits (coeff a)) + prec + 1;
               e = dexp a - dexp b - shift;
               n = (if 0 \<le> shift then coeff a * 10 ^ nat shift else coeff a);
               m = (if 0 \<le> shift then coeff b else coeff b * 10 ^ nat (- shift));
               q = n div m;
               r = n mod m;
               (c, e') = (if r \<noteq> 0 then (if q mod 5 = 0 then q + 1 else q, e)
                          else strip_zeros (nat (dexp a - dexp b - e)) q e)
           in dec_fix (Dec sg c e'))"

definition dec_mod :: "decimal \<Rightarrow> decimal \<Rightarrow> error + decimal" where
  "dec_mod a b =
     (if coeff b = 0 then Inl InvalidOperation
      else
        let ideal_exp = min (dexp a) (dexp b);
            expdiff = adjusted a - adjusted b
        in if coeff a = 0 \<or> expdiff \<le> - 2
           then dec_fix (Dec (dsign a) (coeff a * 10 ^ nat (dexp a - ideal_exp)) ideal_exp)
           else
             let n = coeff a * 10 ^ nat (dexp a - ideal_exp);
                 m = coeff b * 10 ^ nat (dexp b - ideal_exp)
             in if expdiff \<le> prec \<and> int (n div m) < 10 ^ nat prec
                then dec_fix (Dec (dsign a) (n mod m) ideal_exp)
                else Inl InvalidOperation)"

definition dec_neg :: "decimal \<Rightarrow> error + decimal" where
  "dec_neg a = dec_fix (Dec (coeff a \<noteq> 0 \<and> \<not> dsign a) (coeff a) (dexp a))"

definition dec_abs :: "decimal \<Rightarrow> error + decimal" where
  "dec_abs a = dec_fix (Dec False (coeff a) (dexp a))"

definition as_PDec :: "error + decimal \<Rightarrow> error + pyval" where
  "as_PDec r = (case r of Inl e \<Rightarrow> Inl e | Inr d \<Rightarrow> Inr (PDec d))"

subsection \<open>The functions of the module \<^verbatim>\<open>operator\<close>\<close>

text \<open>
  The module applies an operator to two operands that went through the same conversion,
  so to two plain integers or to two plain Decimals. Other combinations are outside the
  model and marked as such.
\<close>

fun operator_abs :: "pyval \<Rightarrow> error + pyval" where
  "operator_abs (PInt a) = Inr (PInt \<bar>a\<bar>)"
| "operator_abs (PDec a) = as_PDec (dec_abs a)"
| "operator_abs x = Inl Unmodelled"

fun operator_neg :: "pyval \<Rightarrow> error + pyval" where
  "operator_neg (PInt a) = Inr (PInt (- a))"
| "operator_neg (PDec a) = as_PDec (dec_neg a)"
| "operator_neg x = Inl Unmodelled"

fun operator_add :: "pyval \<Rightarrow> pyval \<Rightarrow> error + pyval" where
  "operator_add (PInt a) (PInt b) = Inr (PInt (a + b))"
| "operator_add (PDec a) (PDec b) = as_PDec (dec_add a b)"
| "operator_add x y = Inl Unmodelled"

fun operator_mod :: "pyval \<Rightarrow> pyval \<Rightarrow> error + pyval" where
  "operator_mod (PInt a) (PInt b) = int_mod a b"
| "operator_mod (PDec a) (PDec b) = as_PDec (dec_mod a b)"
| "operator_mod x y = Inl Unmodelled"

fun operator_mul :: "pyval \<Rightarrow> pyval \<Rightarrow> error + pyval" where
  "operator_mul (PInt a) (PInt b) = Inr (PInt (a * b))"
| "operator_mul (PDec a) (PDec b) = as_PDec (dec_mul a b)"
| "operator_mul x y = Inl Unmodelled"

fun operator_sub :: "pyval \<Rightarrow> pyval \<Rightarrow> error + pyval" where
  "operator_sub (PInt a) (PInt b) = Inr (PInt (a - b))"
| "operator_sub (PDec a) (PDec b) = as_PDec (dec_sub a b)"
| "operator_sub x y = Inl Unmodelled"

fun operator_truediv :: "pyval \<Rightarrow> pyval \<Rightarrow> error + pyval" where
  "operator_truediv (PInt a) (PInt b) = int_truediv a b"
| "operator_truediv (PDec a) (PDec b) = as_PDec (dec_truediv a b)"
| "operator_truediv x y = Inl Unmodelled"

subsection \<open>The string of a number: \<^verbatim>\<open>str(x)\<close>\<close>

fun digits_of :: "nat \<Rightarrow> string" where
  "digits_of n =
     (if n < 10 then [''0123456789'' ! n]
      else digits_of (n div 10) @ [''0123456789'' ! (n mod 10)])"

declare digits_of.simps [simp del]

definition str_int :: "int \<Rightarrow> string" where
  "str_int i = (if i < 0 then ''-'' @ digits_of (nat (- i)) else digits_of (nat i))"

definition str_decimal :: "decimal \<Rightarrow> string" where
  \<comment> \<open>\<^verbatim>\<open>Decimal.__str__\<close>: plain notation while the exponent is at most \<open>0\<close> and the
      first digit lies no more than six places behind the point, scientific otherwise\<close>
  "str_decimal d =
     (let ds = digits_of (coeff d);
          sgn = (if dsign d then ''-'' else []);
          leftdigits = dexp d + int (length ds);
          dotplace = (if dexp d \<le> 0 \<and> - 6 < leftdigits then leftdigits else 1);
          intpart =
            (if dotplace \<le> 0 then ''0''
             else if int (length ds) \<le> dotplace
               then ds @ replicate (nat (dotplace - int (length ds))) CHR ''0''
             else take (nat dotplace) ds);
          fracpart =
            (if dotplace \<le> 0 then ''.'' @ replicate (nat (- dotplace)) CHR ''0'' @ ds
             else if int (length ds) \<le> dotplace then []
             else ''.'' @ drop (nat dotplace) ds);
          ex = (if leftdigits = dotplace then []
                else ''E'' @ (if 0 \<le> leftdigits - dotplace then ''+'' else [])
                       @ str_int (leftdigits - dotplace))
      in sgn @ intpart @ fracpart @ ex)"

text \<open>
  The string of a float is the shortest decimal that reads back as the same double, the
  nearest one if several are as short: \<open>shortest f n\<close> tries \<open>n\<close>, \<open>n + 1\<close>, ... up to 17
  significant digits, with \<open>f\<close> positive, and returns the digits as a number together
  with the exponent of its last digit.
\<close>

definition ilog10 :: "rat \<Rightarrow> int" where
  \<comment> \<open>for \<open>0 < q\<close>: the \<open>e\<close> with \<open>10 ^ e \<le> q < 10 ^ (e + 1)\<close>\<close>
  "ilog10 q =
     (let (a, b) = quotient_of q;
          e0 = int (ndigits (nat a)) - int (ndigits (nat b))
      in if pow10 e0 \<le> q then e0 else e0 - 1)"

fun strip_trailing :: "nat \<Rightarrow> nat \<Rightarrow> int \<Rightarrow> nat \<times> int" where
  "strip_trailing 0 m e = (m, e)"
| "strip_trailing (Suc k) m e =
     (if m \<noteq> 0 \<and> m mod 10 = 0 then strip_trailing k (m div 10) (e + 1) else (m, e))"

fun shortest :: "rat \<Rightarrow> nat \<Rightarrow> nat \<Rightarrow> nat \<times> int" where
  "shortest f n 0 = (0, 0)"
| "shortest f n (Suc fuel) =
     (let u = ilog10 f - int n + 1;
          lo = \<lfloor>f / pow10 u\<rfloor>;
          hi = \<lceil>f / pow10 u\<rceil>;
          lo_ok = (round64 (of_int lo * pow10 u) = Inr f);
          hi_ok = (round64 (of_int hi * pow10 u) = Inr f);
          lo_near = (f - of_int lo * pow10 u \<le> of_int hi * pow10 u - f)
      in if lo_ok \<and> (\<not> hi_ok \<or> lo_near) then strip_trailing n (nat lo) u
         else if hi_ok then strip_trailing n (nat hi) u
         else shortest f (Suc n) fuel)"

definition str_float :: "rat \<Rightarrow> string" where
  \<comment> \<open>\<^verbatim>\<open>float.__repr__\<close>: fixed notation while the point lies between four places
      before and sixteen places after the first digit, exponent notation otherwise\<close>
  "str_float f =
     (if f = 0 then ''0.0''
      else
        let (m, u) = shortest \<bar>f\<bar> 1 17;
            ds = digits_of m;
            sgn = (if f < 0 then ''-'' else []);
            decpt = u + int (length ds)
        in if - 4 < decpt \<and> decpt \<le> 16 then
             sgn @ (if decpt \<le> 0 then ''0.'' @ replicate (nat (- decpt)) CHR ''0'' @ ds
                    else if int (length ds) \<le> decpt
                      then ds @ replicate (nat (decpt - int (length ds))) CHR ''0'' @ ''.0''
                    else take (nat decpt) ds @ ''.'' @ drop (nat decpt) ds)
           else
             sgn @ take 1 ds @ (if 1 < length ds then ''.'' @ drop 1 ds else [])
               @ ''e'' @ (if 0 \<le> decpt - 1 then ''+'' else ''-'')
               @ (if \<bar>decpt - 1\<bar> < 10 then ''0'' else []) @ str_int \<bar>decpt - 1\<bar>)"

fun str :: "pyval \<Rightarrow> string" where
  \<comment> \<open>\<^verbatim>\<open>str(x)\<close> on a number; the tracking classes inherit it from their base class.
      The module never takes the string of a tuple, whose entry is left empty.\<close>
  "str (PInt i) = str_int i"
| "str (PFloat f) = str_float f"
| "str (PDec d) = str_decimal d"
| "str (IntTrack i ops) = str_int i"
| "str (DecimalTrack d ops) = str_decimal d"
| "str (PTuple n xs) = []"

subsection \<open>\<^verbatim>\<open>str.format\<close>\<close>

fun format :: "string \<Rightarrow> string list \<Rightarrow> error + string" where
  \<comment> \<open>each field \<^verbatim>\<open>{}\<close> of the template takes the next argument; \<^verbatim>\<open>IndexError\<close> when the
      arguments run out, and arguments left over are ignored. The templates of the module
      have no other use of braces.\<close>
  "format [] args = Inr []"
| "format (c # rest) args =
     (if c = CHR ''{'' \<and> take 1 rest = ''}'' then
        (case args of
           [] \<Rightarrow> Inl IndexError
         | a # as \<Rightarrow> (case format (drop 1 rest) as of Inl e \<Rightarrow> Inl e | Inr s \<Rightarrow> Inr (a @ s)))
      else (case format rest args of Inl e \<Rightarrow> Inl e | Inr s \<Rightarrow> Inr (c # s)))"

subsection \<open>Equality: \<^verbatim>\<open>x == y\<close>\<close>

fun num_val :: "pyval \<Rightarrow> rat option" where
  "num_val (PInt i) = Some (of_int i)"
| "num_val (PFloat f) = Some f"
| "num_val (PDec d) = Some (dec_val d)"
| "num_val (IntTrack i ops) = Some (of_int i)"
| "num_val (DecimalTrack d ops) = Some (dec_val d)"
| "num_val (PTuple n xs) = None"

text \<open>
  Numbers of any of the three kinds compare by their exact value; the tracking classes
  define no \<^verbatim>\<open>__eq__\<close> and inherit the comparison of \<^verbatim>\<open>int\<close> and \<^verbatim>\<open>Decimal\<close>. The named
  tuples define none either and inherit the comparison of \<^verbatim>\<open>tuple\<close>: equal length and
  equal items, position by position. A number and a tuple are never equal.
\<close>

fun py_eq :: "pyval \<Rightarrow> pyval \<Rightarrow> bool" where
  "py_eq (PTuple n xs) (PTuple m ys) = list_all2 py_eq xs ys"
| "py_eq (PTuple n xs) y = False"
| "py_eq x (PTuple m ys) = False"
| "py_eq x y = (num_val x = num_val y)"

section \<open>The module\<close>

subsection \<open>Attribute access and type tests\<close>

fun hasattr_operations :: "pyval \<Rightarrow> bool" where
  \<comment> \<open>\<^verbatim>\<open>hasattr(x, 'operations')\<close>: only the two tracking classes set the attribute\<close>
  "hasattr_operations (IntTrack i ops) = True"
| "hasattr_operations (DecimalTrack d ops) = True"
| "hasattr_operations x = False"

fun attr_operations :: "pyval \<Rightarrow> pyval option" where
  \<comment> \<open>\<^verbatim>\<open>x.operations\<close>, read only where \<open>hasattr_operations\<close> holds\<close>
  "attr_operations (IntTrack i ops) = ops"
| "attr_operations (DecimalTrack d ops) = ops"
| "attr_operations x = None"

fun class_name :: "pyval \<Rightarrow> string" where
  \<comment> \<open>\<^verbatim>\<open>x.__class__.__name__\<close>\<close>
  "class_name (PInt i) = ''int''"
| "class_name (PFloat f) = ''float''"
| "class_name (PDec d) = ''Decimal''"
| "class_name (IntTrack i ops) = ''IntTrack''"
| "class_name (DecimalTrack d ops) = ''DecimalTrack''"
| "class_name (PTuple n xs) = n"

fun isinstance_Decimal :: "pyval \<Rightarrow> bool" where
  "isinstance_Decimal (PDec d) = True"
| "isinstance_Decimal (DecimalTrack d ops) = True"
| "isinstance_Decimal x = False"

fun isinstance_tuple :: "pyval \<Rightarrow> bool" where
  "isinstance_tuple (PTuple n xs) = True"
| "isinstance_tuple x = False"

subsection \<open>The constructors of the tracking classes (lines 100 to 103 and 127 to 130)\<close>

definition IntTrack_new :: "pyval \<Rightarrow> pyval option \<Rightarrow> error + pyval" where
  \<comment> \<open>\<^verbatim>\<open>int.__new__(cls, value)\<close> converts the value as \<^verbatim>\<open>int(value)\<close> does\<close>
  "IntTrack_new val ops =
     (case int_value val of Inl e \<Rightarrow> Inl e | Inr i \<Rightarrow> Inr (IntTrack i ops))"

definition DecimalTrack_new :: "pyval \<Rightarrow> pyval option \<Rightarrow> error + pyval" where
  "DecimalTrack_new val ops =
     (case decimal_value val of Inl e \<Rightarrow> Inl e | Inr d \<Rightarrow> Inr (DecimalTrack d ops))"

subsection \<open>\<^verbatim>\<open>track\<close> (lines 41 to 44)\<close>

definition track :: "pyval \<Rightarrow> error + pyval" where
  "track number =
     (if isinstance_Decimal number then DecimalTrack_new number None
      else IntTrack_new number None)"

subsection \<open>\<^verbatim>\<open>partial\<close> (lines 47 to 56)\<close>

text \<open>
  \<^verbatim>\<open>partial(function, *args)\<close> fixes the first arguments of a function and returns a
  plain function of the remaining ones, which as a class attribute receives the instance
  as its next argument. With curried functions this is application to the first arguments.
\<close>

definition partial :: "'a \<Rightarrow> 'a" where
  "partial function = function"

subsection \<open>\<^verbatim>\<open>unary_op\<close>, \<^verbatim>\<open>binary_op\<close>, \<^verbatim>\<open>binary_rop\<close> (lines 59 to 85)\<close>

definition unary_op ::
  "(pyval \<Rightarrow> error + pyval) \<Rightarrow> (pyval \<Rightarrow> error + pyval) \<Rightarrow> (pyval \<Rightarrow> pyval)
     \<Rightarrow> pyval \<Rightarrow> error + pyval" where
  "unary_op type_f operator operation lhs =
     (let lhs_operations =
            (if hasattr_operations lhs \<and> attr_operations lhs \<noteq> None
             then (case attr_operations lhs of Some t \<Rightarrow> t | None \<Rightarrow> lhs)
             else lhs)
      in case type_f lhs of
           Inl e \<Rightarrow> Inl e
         | Inr l \<Rightarrow>
             (case operator l of
                Inl e \<Rightarrow> Inl e
              | Inr result \<Rightarrow> IntTrack_new result (Some (operation lhs_operations))))"

definition binary_op ::
  "(pyval \<Rightarrow> error + pyval) \<Rightarrow> (pyval \<Rightarrow> pyval \<Rightarrow> error + pyval) \<Rightarrow> (pyval \<Rightarrow> pyval \<Rightarrow> pyval)
     \<Rightarrow> pyval \<Rightarrow> pyval \<Rightarrow> error + pyval" where
  "binary_op type_f operator operation lhs rhs =
     (let lhs_operations =
            (if hasattr_operations lhs \<and> attr_operations lhs \<noteq> None
             then (case attr_operations lhs of Some t \<Rightarrow> t | None \<Rightarrow> lhs)
             else lhs);
          rhs_operations =
            (if hasattr_operations rhs \<and> attr_operations rhs \<noteq> None
             then (case attr_operations rhs of Some t \<Rightarrow> t | None \<Rightarrow> rhs)
             else rhs)
      in case type_f lhs of
           Inl e \<Rightarrow> Inl e
         | Inr l \<Rightarrow>
             (case type_f rhs of
                Inl e \<Rightarrow> Inl e
              | Inr r \<Rightarrow>
                  (case operator l r of
                     Inl e \<Rightarrow> Inl e
                   | Inr result \<Rightarrow>
                       IntTrack_new result (Some (operation lhs_operations rhs_operations)))))"

definition binary_rop ::
  "(pyval \<Rightarrow> error + pyval) \<Rightarrow> (pyval \<Rightarrow> pyval \<Rightarrow> error + pyval) \<Rightarrow> (pyval \<Rightarrow> pyval \<Rightarrow> pyval)
     \<Rightarrow> pyval \<Rightarrow> pyval \<Rightarrow> error + pyval" where
  "binary_rop type_f operator operation rhs lhs = binary_op type_f operator operation lhs rhs"

subsection \<open>\<^verbatim>\<open>class IntTrack(int)\<close> (lines 99 to 118)\<close>

text \<open>
  A method takes the instance first: \<open>IntTrack_add x y\<close> is \<^verbatim>\<open>x.__add__(y)\<close>, and
  \<open>IntTrack_radd x y\<close> is \<^verbatim>\<open>x.__radd__(y)\<close>, which Python calls for \<^verbatim>\<open>y + x\<close>.
\<close>

definition IntTrack_abs :: "pyval \<Rightarrow> error + pyval" where
  "IntTrack_abs = partial (unary_op int_ty operator_abs abs_nt)"

definition IntTrack_neg :: "pyval \<Rightarrow> error + pyval" where
  "IntTrack_neg = partial (unary_op int_ty operator_neg neg)"

definition IntTrack_add :: "pyval \<Rightarrow> pyval \<Rightarrow> error + pyval" where
  "IntTrack_add = partial (binary_op int_ty operator_add add)"

definition IntTrack_mod :: "pyval \<Rightarrow> pyval \<Rightarrow> error + pyval" where
  "IntTrack_mod = partial (binary_op int_ty operator_mod mod_nt)"

definition IntTrack_mul :: "pyval \<Rightarrow> pyval \<Rightarrow> error + pyval" where
  "IntTrack_mul = partial (binary_op int_ty operator_mul mul)"

definition IntTrack_sub :: "pyval \<Rightarrow> pyval \<Rightarrow> error + pyval" where
  "IntTrack_sub = partial (binary_op int_ty operator_sub sub)"

definition IntTrack_truediv :: "pyval \<Rightarrow> pyval \<Rightarrow> error + pyval" where
  "IntTrack_truediv = partial (binary_op int_ty operator_truediv div_nt)"

definition IntTrack_radd :: "pyval \<Rightarrow> pyval \<Rightarrow> error + pyval" where
  "IntTrack_radd = partial (binary_rop int_ty operator_add add)"

definition IntTrack_rmod :: "pyval \<Rightarrow> pyval \<Rightarrow> error + pyval" where
  "IntTrack_rmod = partial (binary_rop int_ty operator_mod mod_nt)"

definition IntTrack_rmul :: "pyval \<Rightarrow> pyval \<Rightarrow> error + pyval" where
  "IntTrack_rmul = partial (binary_rop int_ty operator_mul mul)"

definition IntTrack_rsub :: "pyval \<Rightarrow> pyval \<Rightarrow> error + pyval" where
  "IntTrack_rsub = partial (binary_rop int_ty operator_sub sub)"

definition IntTrack_rtruediv :: "pyval \<Rightarrow> pyval \<Rightarrow> error + pyval" where
  "IntTrack_rtruediv = partial (binary_rop int_ty operator_truediv div_nt)"

subsection \<open>\<^verbatim>\<open>class DecimalTrack(Decimal)\<close> (lines 125 to 145)\<close>

definition DecimalTrack_abs :: "pyval \<Rightarrow> error + pyval" where
  "DecimalTrack_abs = partial (unary_op Decimal operator_abs abs_nt)"

definition DecimalTrack_neg :: "pyval \<Rightarrow> error + pyval" where
  "DecimalTrack_neg = partial (unary_op Decimal operator_neg neg)"

definition DecimalTrack_add :: "pyval \<Rightarrow> pyval \<Rightarrow> error + pyval" where
  "DecimalTrack_add = partial (binary_op Decimal operator_add add)"

definition DecimalTrack_mod :: "pyval \<Rightarrow> pyval \<Rightarrow> error + pyval" where
  "DecimalTrack_mod = partial (binary_op Decimal operator_mod mod_nt)"

definition DecimalTrack_mul :: "pyval \<Rightarrow> pyval \<Rightarrow> error + pyval" where
  "DecimalTrack_mul = partial (binary_op Decimal operator_mul mul)"

definition DecimalTrack_sub :: "pyval \<Rightarrow> pyval \<Rightarrow> error + pyval" where
  "DecimalTrack_sub = partial (binary_op Decimal operator_sub sub)"

definition DecimalTrack_truediv :: "pyval \<Rightarrow> pyval \<Rightarrow> error + pyval" where
  "DecimalTrack_truediv = partial (binary_op Decimal operator_truediv div_nt)"

definition DecimalTrack_radd :: "pyval \<Rightarrow> pyval \<Rightarrow> error + pyval" where
  "DecimalTrack_radd = partial (binary_rop Decimal operator_add add)"

definition DecimalTrack_rmod :: "pyval \<Rightarrow> pyval \<Rightarrow> error + pyval" where
  "DecimalTrack_rmod = partial (binary_rop Decimal operator_mod mod_nt)"

definition DecimalTrack_rmul :: "pyval \<Rightarrow> pyval \<Rightarrow> error + pyval" where
  "DecimalTrack_rmul = partial (binary_rop Decimal operator_mul mul)"

definition DecimalTrack_rsub :: "pyval \<Rightarrow> pyval \<Rightarrow> error + pyval" where
  "DecimalTrack_rsub = partial (binary_rop Decimal operator_sub sub)"

definition DecimalTrack_rtruediv :: "pyval \<Rightarrow> pyval \<Rightarrow> error + pyval" where
  \<comment> \<open>line 145 names \<^verbatim>\<open>binary_op\<close>, where the other reflected methods name \<^verbatim>\<open>binary_rop\<close>\<close>
  "DecimalTrack_rtruediv = partial (binary_op Decimal operator_truediv div_nt)"

subsection \<open>\<^verbatim>\<open>op_format\<close> (lines 29 to 38)\<close>

definition op_format :: "string \<rightharpoonup> string" where
  "op_format = map_of
     [(''abs'', ''abs({})''),
      (''neg'', ''-{}''),
      (''add'', ''{} + {}''),
      (''div'', ''{} / {}''),
      (''mod'', ''{} % {}''),
      (''mul'', ''{} * {}''),
      (''sub'', ''{} - {}'')]"

subsection \<open>\<^verbatim>\<open>expression\<close> (lines 88 to 96)\<close>

text \<open>
  The callback is given by the string it leads to: \<open>Some cb\<close> stands for a callback
  \<^verbatim>\<open>c\<close> with \<^verbatim>\<open>str(c(x))\<close> equal to \<open>cb x\<close>, and \<open>None\<close> for no callback. Python looks the
  template up before it renders the items, and renders the items from left to right.
\<close>

fun sequence :: "(error + 'a) list \<Rightarrow> error + 'a list" where
  \<comment> \<open>the results of a generator, up to the first exception\<close>
  "sequence [] = Inr []"
| "sequence (Inl e # rs) = Inl e"
| "sequence (Inr x # rs) = (case sequence rs of Inl e \<Rightarrow> Inl e | Inr xs \<Rightarrow> Inr (x # xs))"

fun expression :: "pyval \<Rightarrow> (pyval \<Rightarrow> string) option \<Rightarrow> error + string" where
  "expression (PTuple name items) callback =
     (case op_format name of
        None \<Rightarrow> Inl (KeyError name)
      | Some template \<Rightarrow>
          (case sequence (map (\<lambda>op. expression op callback) items) of
             Inl e \<Rightarrow> Inl e
           | Inr subexpressions \<Rightarrow>
               (case format template subexpressions of
                  Inl e \<Rightarrow> Inl e
                | Inr s \<Rightarrow> format ''({})'' [s])))"
| "expression operations callback =
     (case callback of
        Some cb \<Rightarrow> Inr (cb operations)
      | None \<Rightarrow> Inr (str operations))"

section \<open>Notions used in the statements\<close>

text \<open>
  The trees the module builds: a number, or a node of one of the seven kinds over trees.
\<close>

inductive is_tree :: "pyval \<Rightarrow> bool" where
  number: "\<not> isinstance_tuple v \<Longrightarrow> is_tree v"
| abs: "is_tree x \<Longrightarrow> is_tree (PTuple ''abs'' [x])"
| neg: "is_tree x \<Longrightarrow> is_tree (PTuple ''neg'' [x])"
| add: "is_tree x \<Longrightarrow> is_tree y \<Longrightarrow> is_tree (PTuple ''add'' [x, y])"
| div: "is_tree x \<Longrightarrow> is_tree y \<Longrightarrow> is_tree (PTuple ''div'' [x, y])"
| mod: "is_tree x \<Longrightarrow> is_tree y \<Longrightarrow> is_tree (PTuple ''mod'' [x, y])"
| mul: "is_tree x \<Longrightarrow> is_tree y \<Longrightarrow> is_tree (PTuple ''mul'' [x, y])"
| sub: "is_tree x \<Longrightarrow> is_tree y \<Longrightarrow> is_tree (PTuple ''sub'' [x, y])"

code_pred is_tree .

text \<open>
  The exact value of a tree read as an arithmetic expression over the numbers at its
  leaves, where it has one.
\<close>

fun tree_value :: "pyval \<Rightarrow> rat option" where
  "tree_value (PTuple n [x]) =
     (case tree_value x of
        None \<Rightarrow> None
      | Some a \<Rightarrow>
          if n = ''abs'' then Some \<bar>a\<bar>
          else if n = ''neg'' then Some (- a)
          else None)"
| "tree_value (PTuple n [x, y]) =
     (case (tree_value x, tree_value y) of
        (Some a, Some b) \<Rightarrow>
          if n = ''add'' then Some (a + b)
          else if n = ''sub'' then Some (a - b)
          else if n = ''mul'' then Some (a * b)
          else if n = ''div'' \<and> b \<noteq> 0 then Some (a / b)
          else if n = ''mod'' \<and> b \<noteq> 0 then Some (a - b * of_int \<lfloor>a / b\<rfloor>)
          else None
      | _ \<Rightarrow> None)"
| "tree_value (PTuple n xs) = None"
| "tree_value x = num_val x"

section \<open>Properties\<close>

lemmas node_defs = abs_nt_def neg_def add_def div_nt_def mod_nt_def mul_def sub_def

lemmas ctx_defs = prec_def Emax_def Emin_def Etiny_def Etop_def

subsection \<open>Rounding to binary64\<close>

lemma pow2_powi: "pow2 e = 2 powi e"
  by (simp add: pow2_def power_int_def field_simps)

lemma pow2_pos: "0 < pow2 e"
  by (simp add: pow2_powi)

lemma pow2_add: "pow2 (a + b) = pow2 a * pow2 b"
  by (simp add: pow2_powi power_int_add)

lemma pow2_mono: "a \<le> b \<Longrightarrow> pow2 a \<le> pow2 b"
  by (simp add: pow2_powi power_int_increasing)

lemma ilog2_unique:
  assumes "pow2 e \<le> q" "q < pow2 (e + 1)" "pow2 e' \<le> q" "q < pow2 (e' + 1)"
  shows "e = e'"
proof (rule ccontr)
  assume "e \<noteq> e'"
  then consider "e + 1 \<le> e'" | "e' + 1 \<le> e" by linarith
  then show False
  proof cases
    case 1
    then have "pow2 (e + 1) \<le> pow2 e'" by (rule pow2_mono)
    with assms show False by linarith
  next
    case 2
    then have "pow2 (e' + 1) \<le> pow2 e" by (rule pow2_mono)
    with assms show False by linarith
  qed
qed

lemma int_bitlen_bounds:
  assumes "0 < (a::int)"
  shows "pow2 (bitlen a - 1) \<le> of_int a" "of_int a < pow2 (bitlen a)"
proof -
  from bitlen_bounds [OF assms]
  have lo: "2 ^ nat (bitlen a - 1) \<le> a" and hi: "a < 2 ^ nat (bitlen a)" by auto
  have ge1: "1 \<le> bitlen a"
    using assms bitlen_nonneg [of a] bitlen_eq_zero_iff [of a] by (simp add: order_less_le)
  have "pow2 (bitlen a - 1) = of_int (2 ^ nat (bitlen a - 1))"
    using ge1 by (simp add: pow2_def)
  also have "\<dots> \<le> of_int a" using lo by (simp only: of_int_le_iff)
  finally show "pow2 (bitlen a - 1) \<le> of_int a" .
  have "of_int a < (of_int (2 ^ nat (bitlen a)) :: rat)" using hi by (simp only: of_int_less_iff)
  also have "\<dots> = pow2 (bitlen a)" using ge1 by (simp add: pow2_def)
  finally show "of_int a < pow2 (bitlen a)" .
qed


lemma pow2_diff: "pow2 (a - b) = pow2 a / pow2 b"
  by (simp add: pow2_powi power_int_diff)

lemma ilog2_bounds:
  assumes "0 < q"
  shows "pow2 (ilog2 q) \<le> q" "q < pow2 (ilog2 q + 1)"
proof -
  obtain a b where ab: "quotient_of q = (a, b)" by (cases "quotient_of q")
  then have b: "0 < b" by (rule quotient_of_denom_pos)
  from ab have q: "q = of_int a / of_int b"
    by (metis quotient_of_div Fract_of_int_quotient quotient_of_inject quotient_of_Fract
        normalize_stable quotient_of_coprime)
  with assms b have a: "0 < a"
    by (simp add: zero_less_divide_iff)
  let ?e0 = "bitlen a - bitlen b"
  have up: "q < pow2 (?e0 + 1)"
  proof -
    have "of_int a / of_int b < pow2 (bitlen a) / (of_int b :: rat)"
      using int_bitlen_bounds(2) [OF a] b by (simp add: divide_strict_right_mono)
    also have "\<dots> \<le> pow2 (bitlen a) / pow2 (bitlen b - 1)"
      using int_bitlen_bounds(1) [OF b] pow2_pos [of "bitlen a"] pow2_pos [of "bitlen b - 1"]
      by (simp add: frac_le)
    also have "\<dots> = pow2 (?e0 + 1)"
      by (simp add: pow2_diff [symmetric] algebra_simps)
    finally show ?thesis by (simp add: q)
  qed
  have low: "pow2 (?e0 - 1) \<le> q"
  proof -
    have "pow2 (?e0 - 1) = pow2 (bitlen a - 1) / pow2 (bitlen b)"
      by (simp add: pow2_diff [symmetric] algebra_simps)
    also have "\<dots> \<le> pow2 (bitlen a - 1) / of_int b"
      using int_bitlen_bounds(2) [OF b] pow2_pos [of "bitlen a - 1"] b
      by (simp add: frac_le)
    also have "\<dots> \<le> of_int a / of_int b"
      using int_bitlen_bounds(1) [OF a] b by (simp add: divide_right_mono)
    finally show ?thesis by (simp add: q)
  qed
  have il: "ilog2 q = (if pow2 ?e0 \<le> q then ?e0 else ?e0 - 1)"
    by (simp add: ilog2_def ab)
  show "pow2 (ilog2 q) \<le> q" using low by (simp add: il)
  show "q < pow2 (ilog2 q + 1)" using up by (simp add: il)
qed

lemma ilog2_eq:
  assumes "pow2 e \<le> q" "q < pow2 (e + 1)"
  shows "ilog2 q = e"
proof -
  have "0 < q" using assms(1) pow2_pos [of e] by linarith
  from ilog2_bounds [OF this] assms show ?thesis
    by (metis ilog2_unique)
qed

lemma rhe_ge: "of_int j \<le> z \<Longrightarrow> j \<le> round_half_even z"
proof -
  assume "of_int j \<le> z"
  then have "j \<le> \<lfloor>z\<rfloor>" by (simp add: le_floor_iff)
  then show ?thesis by (simp add: round_half_even_def Let_def)
qed

lemma rhe_lt: "z < of_int j - 1 / 2 \<Longrightarrow> round_half_even z < j"
proof -
  assume z: "z < of_int j - 1 / 2"
  have "of_int \<lfloor>z\<rfloor> \<le> z" by simp
  with z have "(of_int \<lfloor>z\<rfloor> :: rat) < of_int j" by linarith
  then have f: "\<lfloor>z\<rfloor> \<le> j - 1" by simp
  show ?thesis
  proof (cases "\<lfloor>z\<rfloor> = j - 1")
    case True
    then have "z - of_int \<lfloor>z\<rfloor> < 1 / 2" using z by simp
    then show ?thesis using True by (simp add: round_half_even_def Let_def)
  next
    case False
    with f have "\<lfloor>z\<rfloor> \<le> j - 2" by simp
    then show ?thesis by (simp add: round_half_even_def Let_def)
  qed
qed

lemma rhe_neg: "round_half_even (- z) = - round_half_even z"
proof (cases "z = of_int \<lfloor>z\<rfloor>")
  case True
  then obtain k where "z = of_int k" ..
  then show ?thesis by (simp add: round_half_even_def Let_def)
next
  case False
  then have fl: "\<lfloor>- z\<rfloor> = - \<lfloor>z\<rfloor> - 1"
    by (metis ceiling_altdef ceiling_def add_diff_cancel_right' minus_diff_eq neg_equal_iff_equal uminus_add_conv_diff)
  have "z - of_int \<lfloor>z\<rfloor> \<noteq> 0" using False by simp
  moreover have "0 \<le> z - of_int \<lfloor>z\<rfloor>" by simp
  ultimately have pos: "0 < z - of_int \<lfloor>z\<rfloor>" by linarith
  show ?thesis
    using pos by (auto simp add: round_half_even_def Let_def fl)
qed

lemma round64_eval:
  assumes "pow2 e \<le> \<bar>q\<bar>" "\<bar>q\<bar> < pow2 (e + 1)"
  shows "round64 q =
     (let p = max (e - 52) (- 1074);
          r = of_int (round_half_even (q / pow2 p)) * pow2 p
      in if pow2 1024 \<le> \<bar>r\<bar> then Inl OverflowError else Inr r)"
proof -
  have "q \<noteq> 0" using assms(1) pow2_pos [of e] by auto
  then show ?thesis by (simp add: round64_def ilog2_eq [OF assms])
qed

lemma floor_numeral_div:
  "\<lfloor>numeral a / numeral b :: rat\<rfloor> = numeral a div numeral b"
  "\<lfloor>- numeral a / numeral b :: rat\<rfloor> = - numeral a div numeral b"
  using floor_divide_of_int_eq [of "numeral a" "numeral b", where ?'a = rat]
        floor_divide_of_int_eq [of "- numeral a" "numeral b", where ?'a = rat]
  by simp_all

lemma round64_7_3: "round64 (7 / 3) = Inr (5254199565265579 / 2251799813685248)"
  by (subst round64_eval [of 1]) (simp_all add: pow2_def round_half_even_def Let_def floor_numeral_div)

lemma pow2_nonpos: "p \<le> 0 \<Longrightarrow> pow2 p = 1 / of_int (2 ^ nat (- p))"
  by (cases "p = 0") (simp_all add: pow2_def)

lemma pow2_lt_imp: "pow2 a < pow2 b \<Longrightarrow> a < b"
  using pow2_mono [of b a] by (cases "a < b") auto

lemma round64_floor_pos:
  fixes a b :: int
  assumes a: "0 < a" and b: "0 < b" and small: "a < 2 ^ 53"
  shows "\<exists>f. round64 (of_int a / of_int b) = Inr f \<and> \<lfloor>f\<rfloor> = a div b \<and> 0 \<le> f"
proof -
  define q :: rat where "q = of_int a / of_int b"
  define e where "e = ilog2 q"
  define p where "p = max (e - 52) (- 1074)"
  define K :: int where "K = 2 ^ nat (- p)"
  define n where "n = a div b"
  define m where "m = round_half_even (q * of_int K)"
  have qpos: "0 < q" using a b by (simp add: q_def)
  have lo: "pow2 e \<le> q" and hi: "q < pow2 (e + 1)"
    using ilog2_bounds [OF qpos] by (simp_all add: e_def)
  have bq: "of_int b * q = of_int a" using b by (simp add: q_def)
  have "q \<le> of_int a"
  proof -
    have "1 * q \<le> of_int b * q" using b qpos by (intro mult_right_mono) simp_all
    then show ?thesis by (simp add: bq)
  qed
  also have "(of_int a :: rat) < 2 ^ 53" using small by (metis of_int_less_numeral_power_cancel_iff)
  finally have q53: "q < pow2 53" by (simp add: pow2_def)
  have e52: "e \<le> 52" using pow2_lt_imp [of e 53] lo q53 by simp
  have p0: "p \<le> 0" using e52 by (simp add: p_def)
  have Kpos: "0 < K" by (simp add: K_def)
  have pK: "pow2 p = 1 / of_int K" using pow2_nonpos [OF p0] by (simp add: K_def)
  have n0: "0 \<le> n" using a b by (simp add: n_def pos_imp_zdiv_nonneg_iff)
  have nfl: "\<lfloor>q\<rfloor> = n" by (simp add: q_def n_def floor_divide_of_int_eq)
  have nq: "of_int n \<le> q" using nfl by (metis of_int_floor_le)
  have gap: "1 / of_int b \<le> of_int n + 1 - q"
  proof -
    have "a mod b < b" using b by simp
    moreover have "a = n * b + a mod b" by (simp add: n_def)
    ultimately have "a < (n + 1) * b" by (simp add: algebra_simps)
    then have "1 \<le> (n + 1) * b - a" by simp
    then have "(1 :: rat) \<le> of_int ((n + 1) * b - a)" by (simp only: of_int_1_le_iff)
    then have "1 / of_int b \<le> (of_int ((n + 1) * b - a) :: rat) / of_int b"
      using b by (simp only: divide_right_mono of_int_0_le_iff order_less_imp_le)
    also have "\<dots> = of_int n + 1 - q"
      using b by (simp add: q_def diff_divide_distrib add_divide_distrib distrib_right)
    finally show ?thesis .
  qed
  have key: "1 / 2 < (of_int n + 1 - q) * of_int K"
  proof (cases "- 1074 \<le> e - 52")
    case True
    then have "p = e - 52" by (simp add: p_def)
    then have K2: "of_int K = pow2 (52 - e)" using pK pow2_diff [of 0 p] by (simp add: pow2_def)
    have "of_int b * pow2 e \<le> of_int b * q" using lo b by (simp add: mult_left_mono)
    also have "\<dots> < pow2 53" using bq small by (simp add: pow2_def)
    finally have "of_int b < pow2 53 / pow2 e" using pow2_pos [of e] by (simp add: pos_less_divide_eq)
    also have "\<dots> = 2 * of_int K" using pow2_diff [of 53 e] pow2_add [of 1 "52 - e"] by (simp add: K2 pow2_def)
    finally have "of_int b < 2 * (of_int K :: rat)" .
    then have "1 / 2 < of_int K / (of_int b :: rat)" using b by (simp add: pos_less_divide_eq)
    also have "\<dots> = (1 / of_int b) * of_int K" by simp
    also have "\<dots> \<le> (of_int n + 1 - q) * of_int K"
      using gap Kpos by (intro mult_right_mono) simp_all
    finally show ?thesis .
  next
    case False
    then have e1: "e + 1 \<le> - 1022" and pe: "p = - 1074" by (simp_all add: p_def)
    have "q < pow2 (- 1022)" using hi pow2_mono [OF e1] by linarith
    also have "\<dots> \<le> 1 / 2" by (simp add: pow2_def)
    finally have qh: "q < 1 / 2" .
    then have "n = 0" using nq n0 by (cases "n = 0") (auto simp: order_less_le dest: order_trans)
    have "1 \<le> K" using Kpos by linarith
    then have "(1 :: rat) \<le> of_int K" by (simp only: of_int_1_le_iff)
    then have "1 / 2 * 1 < (1 - q) * of_int K"
      using qh by (intro mult_less_le_imp_less) simp_all
    then show ?thesis using \<open>n = 0\<close> by simp
  qed
  have low: "n * K \<le> m"
    unfolding m_def using nq Kpos by (intro rhe_ge) (simp add: mult_right_mono)
  have upp: "m < (n + 1) * K"
    unfolding m_def using key by (intro rhe_lt) (simp add: algebra_simps)
  define f :: rat where "f = of_int m * pow2 p"
  have ff: "f = of_int m / of_int K" by (simp add: f_def pK)
  have fl: "of_int n \<le> f"
    using low Kpos by (simp add: ff pos_le_divide_eq) (metis of_int_le_iff of_int_mult)
  have fu: "f < of_int n + 1"
    using upp Kpos by (simp add: ff pos_divide_less_eq) (metis of_int_less_iff of_int_mult of_int_add of_int_1)
  have floor_f: "\<lfloor>f\<rfloor> = n" using fl fu by (simp add: floor_unique)
  have "of_int n + 1 \<le> (of_int a :: rat) + 1" using nq \<open>q \<le> of_int a\<close> by simp
  also have "\<dots> \<le> 2 ^ 53" using small by (metis of_int_1 of_int_add of_int_le_numeral_power_cancel_iff zless_imp_add1_zle)
  also have "\<dots> < pow2 1024" by (simp add: pow2_def)
  finally have "f < pow2 1024" using fu by simp
  moreover have f0: "0 \<le> f" using fl n0 by (metis of_int_0_le_iff order_trans)
  ultimately have nov: "\<not> pow2 1024 \<le> \<bar>f\<bar>" by simp
  have "round64 q = Inr f"
    using qpos nov
    by (simp add: round64_def e_def [symmetric] p_def [symmetric] Let_def f_def m_def pK)
  then show ?thesis using floor_f f0 by (auto simp: q_def n_def)
qed

lemma trunc_neg: "trunc (- z) = - trunc z"
  by (cases "z = 0") (auto simp: trunc_def ceiling_def)

lemma round64_neg:
  "round64 (- q) = (case round64 q of Inl e \<Rightarrow> Inl e | Inr r \<Rightarrow> Inr (- r))"
  by (simp add: round64_def Let_def rhe_neg)

lemma round64_trunc:
  fixes x y :: int
  assumes y: "y \<noteq> 0" and small: "\<bar>x\<bar> < 2 ^ 53"
  shows "\<exists>f. round64 (of_int x / of_int y) = Inr f \<and> trunc f = trunc (of_int x / of_int y)"
proof (cases "x = 0")
  case True
  then show ?thesis by (simp add: round64_def)
next
  case False
  define a where "a = \<bar>x\<bar>"
  define b where "b = \<bar>y\<bar>"
  have a: "0 < a" and b: "0 < b" and sm: "a < 2 ^ 53"
    using False y small by (simp_all add: a_def b_def)
  from round64_floor_pos [OF a b sm] obtain f
    where f: "round64 (of_int a / of_int b) = Inr f" "\<lfloor>f\<rfloor> = a div b" "0 \<le> f" by blast
  have q0: "(0 :: rat) \<le> of_int a / of_int b" using a b by simp
  have tf: "trunc f = trunc (of_int a / of_int b)"
    using f q0 by (simp add: trunc_def floor_divide_of_int_eq)
  show ?thesis
  proof (cases "(0 < x) = (0 < y)")
    case True
    then have "(of_int x :: rat) / of_int y = of_int a / of_int b"
      using False y by (auto simp: a_def b_def abs_if)
    then show ?thesis using f tf by simp
  next
    case False
    then have "(of_int x :: rat) / of_int y = - (of_int a / of_int b)"
      using \<open>x \<noteq> 0\<close> y by (auto simp: a_def b_def abs_if)
    then show ?thesis using f tf by (simp add: round64_neg trunc_neg)
  qed
qed

subsection \<open>What a node records\<close>

lemma IntTrack_new_operations:
  "IntTrack_new res (Some t) = Inr r \<Longrightarrow> attr_operations r = Some t"
  by (auto simp: IntTrack_new_def split: sum.splits)

text \<open>
  C4, as the claim states it, fails: in \<^verbatim>\<open>track(5) * 2\<close> the left operand is a tracked
  value without a tree, and the position of the node holds that tracked value, an
  instance of \<open>IntTrack\<close>, not the literal 5.
\<close>

theorem tracked_operand_recorded_as_passed:
  "track (PInt 5) = Inr (IntTrack 5 None)
   \<and> IntTrack_mul (IntTrack 5 None) (PInt 2)
       = Inr (IntTrack 10 (Some (mul (IntTrack 5 None) (PInt 2))))
   \<and> mul (IntTrack 5 None) (PInt 2) \<noteq> mul (PInt 5) (PInt 2)
   \<and> class_name (IntTrack 5 None) = ''IntTrack'' \<and> class_name (PInt 5) = ''int''"
  by (simp add: track_def IntTrack_new_def IntTrack_mul_def partial_def binary_op_def
        int_ty_def mul_def)

text \<open>
  C4, amended. Whenever \<open>binary_op\<close> or \<open>unary_op\<close> returns a tracked value, its
  attribute \<open>operations\<close> is the node built by the operation, and each position of the
  node holds the tree of the operand when the operand is a tracked value that carries
  one, and the operand as it was passed otherwise: a literal is recorded as it is, and a
  tracked value without a tree is recorded as the tracked value itself, which is equal
  (\<^verbatim>\<open>==\<close>) to its literal. Composition joins the trees:
  \<^verbatim>\<open>(track(5) * 2 - 3).operations\<close> is equal (\<^verbatim>\<open>==\<close>) to \<^verbatim>\<open>sub(mul(5, 2), 3)\<close>.
\<close>

theorem operands_recorded:
  "(binary_op type_f operator operation lhs rhs = Inr r \<longrightarrow>
      attr_operations r =
        Some (operation (case attr_operations lhs of Some t \<Rightarrow> t | None \<Rightarrow> lhs)
                        (case attr_operations rhs of Some t \<Rightarrow> t | None \<Rightarrow> rhs)))
   \<and> (unary_op type_f uoperator uoperation lhs = Inr r' \<longrightarrow>
      attr_operations r' =
        Some (uoperation (case attr_operations lhs of Some t \<Rightarrow> t | None \<Rightarrow> lhs)))
   \<and> py_eq (IntTrack i None) (PInt i) \<and> py_eq (DecimalTrack d None) (PDec d)
   \<and> track (PInt 5) = Inr (IntTrack 5 None)
   \<and> IntTrack_mul (IntTrack 5 None) (PInt 2)
       = Inr (IntTrack 10 (Some (mul (IntTrack 5 None) (PInt 2))))
   \<and> IntTrack_sub (IntTrack 10 (Some (mul (IntTrack 5 None) (PInt 2)))) (PInt 3)
       = Inr (IntTrack 7 (Some (sub (mul (IntTrack 5 None) (PInt 2)) (PInt 3))))
   \<and> py_eq (sub (mul (IntTrack 5 None) (PInt 2)) (PInt 3)) (sub (mul (PInt 5) (PInt 2)) (PInt 3))"
proof -
  have helpers:
    "(binary_op type_f operator operation lhs rhs = Inr r \<longrightarrow>
        attr_operations r =
          Some (operation (case attr_operations lhs of Some t \<Rightarrow> t | None \<Rightarrow> lhs)
                          (case attr_operations rhs of Some t \<Rightarrow> t | None \<Rightarrow> rhs)))
     \<and> (unary_op type_f uoperator uoperation lhs = Inr r' \<longrightarrow>
        attr_operations r' =
          Some (uoperation (case attr_operations lhs of Some t \<Rightarrow> t | None \<Rightarrow> lhs)))"
    by (cases lhs; cases rhs)
       (auto simp: binary_op_def unary_op_def dest!: IntTrack_new_operations
             split: sum.splits option.splits)
  have example:
    "track (PInt 5) = Inr (IntTrack 5 None)
     \<and> IntTrack_mul (IntTrack 5 None) (PInt 2)
         = Inr (IntTrack 10 (Some (mul (IntTrack 5 None) (PInt 2))))
     \<and> IntTrack_sub (IntTrack 10 (Some (mul (IntTrack 5 None) (PInt 2)))) (PInt 3)
         = Inr (IntTrack 7 (Some (sub (mul (IntTrack 5 None) (PInt 2)) (PInt 3))))"
    by (simp add: track_def IntTrack_new_def IntTrack_mul_def IntTrack_sub_def partial_def
          binary_op_def int_ty_def)
  have equal:
    "py_eq (IntTrack i None) (PInt i) \<and> py_eq (DecimalTrack d None) (PDec d)
     \<and> py_eq (sub (mul (IntTrack 5 None) (PInt 2)) (PInt 3))
              (sub (mul (PInt 5) (PInt 2)) (PInt 3))"
    by (simp add: node_defs)
  from helpers example equal show ?thesis by blast
qed

theorem operands_recorded_witness:
  "binary_op int_ty operator_sub sub (IntTrack 10 (Some (mul (IntTrack 5 None) (PInt 2)))) (PInt 3)
     = Inr (IntTrack 7 (Some (sub (mul (IntTrack 5 None) (PInt 2)) (PInt 3))))
   \<and> attr_operations (IntTrack 7 (Some (sub (mul (IntTrack 5 None) (PInt 2)) (PInt 3))))
     = Some (sub (mul (IntTrack 5 None) (PInt 2)) (PInt 3))
   \<and> unary_op int_ty operator_neg neg (IntTrack 5 None)
     = Inr (IntTrack (- 5) (Some (neg (IntTrack 5 None))))
   \<and> attr_operations (IntTrack (- 5) (Some (neg (IntTrack 5 None))))
     = Some (neg (IntTrack 5 None))"
  using operands_recorded [of int_ty operator_sub sub
      "IntTrack 10 (Some (mul (IntTrack 5 None) (PInt 2)))" "PInt 3"
      "IntTrack 7 (Some (sub (mul (IntTrack 5 None) (PInt 2)) (PInt 3)))"
      operator_neg neg "IntTrack (- 5) (Some (neg (IntTrack 5 None)))"]
  by (simp add: binary_op_def unary_op_def int_ty_def IntTrack_new_def)

subsection \<open>Errors\<close>

text \<open>
  C6. An exception raised by the arithmetic on the converted operands is the result of
  the operation, unchanged, and no tracked value is produced: division of a tracked
  integer by zero raises \<^verbatim>\<open>ZeroDivisionError\<close>, division of a tracked Decimal by zero
  raises \<^verbatim>\<open>decimal.DivisionByZero\<close>.
\<close>

theorem errors_propagate:
  "(type_f lhs = Inr l \<longrightarrow> type_f rhs = Inr r \<longrightarrow> operator l r = Inl e \<longrightarrow>
      binary_op type_f operator operation lhs rhs = Inl e)
   \<and> (type_f lhs = Inr l \<longrightarrow> uoperator l = Inl e \<longrightarrow>
      unary_op type_f uoperator uoperation lhs = Inl e)
   \<and> IntTrack_truediv (IntTrack 1 None) (PInt 0) = Inl ZeroDivisionError
   \<and> DecimalTrack_truediv (DecimalTrack (Dec False 1 0) None) (PInt 0) = Inl DivisionByZero"
  by (simp add: binary_op_def unary_op_def IntTrack_truediv_def DecimalTrack_truediv_def
        partial_def int_ty_def int_truediv_def Decimal_def dec_truediv_def as_PDec_def)

theorem errors_propagate_witness:
  "int_ty (IntTrack 7 None) = Inr (PInt 7) \<and> int_ty (PInt 0) = Inr (PInt 0)
   \<and> operator_mod (PInt 7) (PInt 0) = Inl ZeroDivisionError
   \<and> binary_op int_ty operator_mod mod_nt (IntTrack 7 None) (PInt 0) = Inl ZeroDivisionError
   \<and> Decimal (PInt 0) = Inr (PDec (Dec False 0 0))
   \<and> operator_truediv (PDec (Dec False 0 0)) (PDec (Dec False 0 0)) = Inl InvalidOperation"
  using errors_propagate [of int_ty "IntTrack 7 None" "PInt 7" "PInt 0" "PInt 0" operator_mod
      ZeroDivisionError mod_nt]
  by (simp add: int_ty_def int_mod_def Decimal_def dec_truediv_def as_PDec_def)

subsection \<open>The order of the operands\<close>

text \<open>
  A reflected method built with \<open>binary_rop\<close> receives the right operand of the
  expression as its instance and records the operands in the order of the expression.
\<close>

lemma binary_rop_order:
  "binary_rop type_f operator operation self other = Inr r \<Longrightarrow>
   attr_operations r =
     Some (operation (case attr_operations other of Some t \<Rightarrow> t | None \<Rightarrow> other)
                     (case attr_operations self of Some t \<Rightarrow> t | None \<Rightarrow> self))"
  by (cases self; cases other)
     (auto simp: binary_rop_def binary_op_def dest!: IntTrack_new_operations
           split: sum.splits option.splits)

text \<open>
  C2. Python evaluates \<^verbatim>\<open>3 / track(Decimal(7))\<close> as \<^verbatim>\<open>track(Decimal(7)).__rtruediv__(3)\<close>.
  The node it records has the tracked 7 on the left and the literal 3 on the right, and
  the value is that of \<open>7 / 3\<close>: the operands of the expression are exchanged. The
  reflected subtraction of the same class, \<^verbatim>\<open>3 - track(Decimal(7))\<close>, records
  \<^verbatim>\<open>sub(3, 7)\<close>.
\<close>

theorem DecimalTrack_rtruediv_exchanges_operands:
  "DecimalTrack_rtruediv (DecimalTrack (Dec False 7 0) None) (PInt 3)
     = Inr (IntTrack 2 (Some (div_nt (DecimalTrack (Dec False 7 0) None) (PInt 3))))
   \<and> DecimalTrack_rsub (DecimalTrack (Dec False 7 0) None) (PInt 3)
     = Inr (IntTrack (- 4) (Some (sub (PInt 3) (DecimalTrack (Dec False 7 0) None))))"
  by (simp add: DecimalTrack_rtruediv_def DecimalTrack_rsub_def partial_def binary_op_def
        binary_rop_def Decimal_def as_PDec_def dec_truediv_def dec_sub_def dec_add_def
        dec_signed_def dec_fix_def ctx_defs ndigits.simps IntTrack_new_def dec_int_def Let_def)

subsection \<open>The kind of a result\<close>

text \<open>
  C3. \<^verbatim>\<open>track(Decimal('1.5')) + Decimal('0.25')\<close> computes the Decimal 1.75 and returns
  an instance of \<open>IntTrack\<close> with the integer value 1: the helpers build every result with
  \<open>IntTrack\<close>, whose constructor truncates.
\<close>

theorem DecimalTrack_add_returns_IntTrack:
  "operator_add (PDec (Dec False 15 (- 1))) (PDec (Dec False 25 (- 2)))
     = Inr (PDec (Dec False 175 (- 2)))
   \<and> DecimalTrack_add (DecimalTrack (Dec False 15 (- 1)) None) (PDec (Dec False 25 (- 2)))
     = Inr (IntTrack 1 (Some (add (DecimalTrack (Dec False 15 (- 1)) None)
                                  (PDec (Dec False 25 (- 2))))))"
  by (simp add: DecimalTrack_add_def partial_def binary_op_def Decimal_def as_PDec_def
        dec_add_def dec_fix_def dec_signed_def ctx_defs ndigits.simps IntTrack_new_def
        dec_int_def)

subsection \<open>Rendering\<close>

lemma expression_number:
  "\<not> isinstance_tuple v \<Longrightarrow>
   expression v c = Inr (case c of Some cb \<Rightarrow> cb v | None \<Rightarrow> str v)"
  by (cases v; cases c) simp_all

lemma expression_total: "is_tree v \<Longrightarrow> \<exists>s. expression v c = Inr s"
proof (induction rule: is_tree.induct)
  case (number v)
  then show ?case by (simp add: expression_number)
qed (auto simp: node_defs op_format_def)

text \<open>
  C5. Every tree is rendered. A value that is not a tuple is rendered by the callback
  when there is one and by \<open>str\<close> otherwise. A node is rendered from the renderings of
  its operands, put into the template of its kind, and the result is put in parentheses,
  at every level.
\<close>

theorem expression_renders:
  "(is_tree w \<longrightarrow> (\<exists>s. expression w c = Inr s))
   \<and> (\<not> isinstance_tuple v \<longrightarrow>
      expression v None = Inr (str v) \<and> expression v (Some cb) = Inr (cb v))
   \<and> (expression x c = Inr sx \<longrightarrow>
      expression (abs_nt x) c = Inr (''(abs('' @ sx @ ''))'')
      \<and> expression (neg x) c = Inr (''(-'' @ sx @ '')''))
   \<and> (expression x c = Inr sx \<longrightarrow> expression y c = Inr sy \<longrightarrow>
      expression (add x y) c = Inr (''('' @ sx @ '' + '' @ sy @ '')'')
      \<and> expression (sub x y) c = Inr (''('' @ sx @ '' - '' @ sy @ '')'')
      \<and> expression (mul x y) c = Inr (''('' @ sx @ '' * '' @ sy @ '')'')
      \<and> expression (div_nt x y) c = Inr (''('' @ sx @ '' / '' @ sy @ '')'')
      \<and> expression (mod_nt x y) c = Inr (''('' @ sx @ '' % '' @ sy @ '')''))"
proof -
  have lit: "\<not> isinstance_tuple v \<longrightarrow>
      expression v None = Inr (str v) \<and> expression v (Some cb) = Inr (cb v)"
    by (cases v) simp_all
  have un: "expression x c = Inr sx \<longrightarrow>
      expression (abs_nt x) c = Inr (''(abs('' @ sx @ ''))'')
      \<and> expression (neg x) c = Inr (''(-'' @ sx @ '')'')"
    by (simp add: node_defs op_format_def)
  have bin: "expression x c = Inr sx \<longrightarrow> expression y c = Inr sy \<longrightarrow>
      expression (add x y) c = Inr (''('' @ sx @ '' + '' @ sy @ '')'')
      \<and> expression (sub x y) c = Inr (''('' @ sx @ '' - '' @ sy @ '')'')
      \<and> expression (mul x y) c = Inr (''('' @ sx @ '' * '' @ sy @ '')'')
      \<and> expression (div_nt x y) c = Inr (''('' @ sx @ '' / '' @ sy @ '')'')
      \<and> expression (mod_nt x y) c = Inr (''('' @ sx @ '' % '' @ sy @ '')'')"
    by (simp add: node_defs op_format_def)
  from expression_total [of w c] lit un bin show ?thesis by blast
qed

theorem expression_renders_witness:
  "is_tree (sub (mul (IntTrack 5 None) (PInt 2)) (PInt 3))
   \<and> \<not> isinstance_tuple (PInt 3)
   \<and> expression (PInt 3) None = Inr ''3''
   \<and> expression (PInt 3) (Some (\<lambda>v. ''n'')) = Inr ''n''
   \<and> expression (mul (IntTrack 5 None) (PInt 2)) None = Inr ''(5 * 2)''
   \<and> expression (neg (mul (IntTrack 5 None) (PInt 2))) None = Inr ''(-(5 * 2))''
   \<and> expression (sub (mul (IntTrack 5 None) (PInt 2)) (PInt 3)) None = Inr ''((5 * 2) - 3)''"
proof -
  have tree: "is_tree (sub (mul (IntTrack 5 None) (PInt 2)) (PInt 3))"
    by (simp add: node_defs is_tree.intros)
  with expression_renders [of "sub (mul (IntTrack 5 None) (PInt 2)) (PInt 3)" None "PInt 3"
      "\<lambda>v. ''n''" "mul (IntTrack 5 None) (PInt 2)" "''(5 * 2)''" "PInt 3" "''3''"]
  show ?thesis
    by (simp add: node_defs op_format_def str_int_def digits_of.simps)
qed

subsection \<open>Equality\<close>

text \<open>
  C7, as the claim states it, fails: \<^verbatim>\<open>add(5, 3) == mul(5, 3)\<close> holds, although the two
  nodes are of different kinds.
\<close>

theorem node_equality_ignores_kind:
  "py_eq (add (PInt 5) (PInt 3)) (mul (PInt 5) (PInt 3))
   \<and> class_name (add (PInt 5) (PInt 3)) \<noteq> class_name (mul (PInt 5) (PInt 3))"
  by (simp add: node_defs)

text \<open>
  C7, amended. Two nodes are equal exactly when they have the same number of operands
  and equal operands, position by position, whatever their kinds; so two nodes of one
  kind are equal exactly when their operands are. Two tracked values are equal exactly
  when their numeric values are: the trees they carry take no part in the comparison.
\<close>

theorem equality_of_nodes_and_tracked:
  "(py_eq (PTuple n xs) (PTuple m ys) \<longleftrightarrow>
      length xs = length ys \<and> (\<forall>i<length xs. py_eq (xs ! i) (ys ! i)))
   \<and> (py_eq (add a b) (add a' b') \<longleftrightarrow> py_eq a a' \<and> py_eq b b')
   \<and> (py_eq (neg a) (neg a') \<longleftrightarrow> py_eq a a')
   \<and> (py_eq (IntTrack i s) (IntTrack j t) \<longleftrightarrow> i = j)
   \<and> (py_eq (DecimalTrack c s) (DecimalTrack d t) \<longleftrightarrow> dec_val c = dec_val d)
   \<and> (py_eq (IntTrack i s) (DecimalTrack d t) \<longleftrightarrow> of_int i = dec_val d)"
proof -
  have items: "py_eq (PTuple n xs) (PTuple m ys) \<longleftrightarrow>
      length xs = length ys \<and> (\<forall>i<length xs. py_eq (xs ! i) (ys ! i))"
    by (simp add: list_all2_conv_all_nth)
  have rest: "(py_eq (add a b) (add a' b') \<longleftrightarrow> py_eq a a' \<and> py_eq b b')
     \<and> (py_eq (neg a) (neg a') \<longleftrightarrow> py_eq a a')
     \<and> (py_eq (IntTrack i s) (IntTrack j t) \<longleftrightarrow> i = j)
     \<and> (py_eq (DecimalTrack c s) (DecimalTrack d t) \<longleftrightarrow> dec_val c = dec_val d)
     \<and> (py_eq (IntTrack i s) (DecimalTrack d t) \<longleftrightarrow> of_int i = dec_val d)"
    by (simp add: node_defs)
  from items rest show ?thesis by blast
qed

theorem equality_of_nodes_and_tracked_witness:
  "length [PInt 5, PInt 3] = length [IntTrack 5 None, PInt 3]
   \<and> py_eq ([PInt 5, PInt 3] ! 0) ([IntTrack 5 None, PInt 3] ! 0)
   \<and> py_eq ([PInt 5, PInt 3] ! 1) ([IntTrack 5 None, PInt 3] ! 1)
   \<and> py_eq (PTuple ''add'' [PInt 5, PInt 3]) (PTuple ''mul'' [IntTrack 5 None, PInt 3])
   \<and> py_eq (IntTrack 7 None) (IntTrack 7 (Some (add (PInt 3) (PInt 4))))
   \<and> \<not> py_eq (IntTrack 7 None) (IntTrack 8 None)"
  using equality_of_nodes_and_tracked [of "''add''" "[PInt 5, PInt 3]" "''mul''"
      "[IntTrack 5 None, PInt 3]" _ _ _ _ 7 None 7 "Some (add (PInt 3) (PInt 4))"]
  by (simp add: less_Suc_eq)

subsection \<open>Division of tracked integers\<close>

lemma round64_error: "round64 q = Inl e \<Longrightarrow> e = OverflowError"
  by (auto simp: round64_def Let_def split: if_splits)

lemma round64_2_1024: "round64 (2 ^ 1024) = Inl OverflowError"
  by (subst round64_eval [of 1024]) (simp_all add: pow2_def round_half_even_def Let_def)

lemma round64_5_2: "round64 (5 / 2) = Inr (5 / 2)"
  by (subst round64_eval [of 1])
     (simp_all add: pow2_def round_half_even_def Let_def floor_numeral_div)

text \<open>
  C1, as the claim states it, fails: \<^verbatim>\<open>track(7) / track(3)\<close> has the numeric value 2,
  not \<open>7 / 3\<close>.
\<close>

theorem IntTrack_truediv_7_3:
  "IntTrack_truediv (IntTrack 7 None) (IntTrack 3 None)
     = Inr (IntTrack 2 (Some (div_nt (IntTrack 7 None) (IntTrack 3 None))))
   \<and> num_val (IntTrack 2 (Some (div_nt (IntTrack 7 None) (IntTrack 3 None)))) \<noteq> Some (7 / 3)"
  by (simp add: IntTrack_truediv_def partial_def binary_op_def int_ty_def int_truediv_def
        round64_7_3 IntTrack_new_def trunc_def floor_numeral_div)

text \<open>
  C1, amended. For tracked integers \<open>x\<close> and \<open>y\<close> with \<open>y\<close> not zero, \<open>x / y\<close> raises
  \<^verbatim>\<open>OverflowError\<close> when the double nearest to the quotient is beyond the range of the
  doubles, as for \<open>2 ^ 1024 / 1\<close>, and otherwise is an instance of \<open>IntTrack\<close> whose
  numeric value is the integer obtained by truncating that double toward zero and whose
  node records the two operands in their order. Whenever \<open>|x| < 2 ^ 53\<close> there is no
  error and the value is the exact quotient truncated toward zero, so
  \<^verbatim>\<open>track(7) / track(3)\<close> has the value 2.
\<close>

theorem IntTrack_truediv_truncates:
  "(y \<noteq> 0 \<longrightarrow>
      IntTrack_truediv (IntTrack x s) (IntTrack y t)
        = (case round64 (of_int x / of_int y) of
             Inl e \<Rightarrow> Inl OverflowError
           | Inr f \<Rightarrow>
               Inr (IntTrack (trunc f)
                 (Some (div_nt (case s of Some u \<Rightarrow> u | None \<Rightarrow> IntTrack x None)
                               (case t of Some u \<Rightarrow> u | None \<Rightarrow> IntTrack y None))))))
   \<and> (y \<noteq> 0 \<longrightarrow> \<bar>x\<bar> < 2 ^ 53 \<longrightarrow>
      IntTrack_truediv (IntTrack x s) (IntTrack y t)
        = Inr (IntTrack (trunc (of_int x / of_int y))
            (Some (div_nt (case s of Some u \<Rightarrow> u | None \<Rightarrow> IntTrack x None)
                          (case t of Some u \<Rightarrow> u | None \<Rightarrow> IntTrack y None)))))
   \<and> IntTrack_truediv (IntTrack (2 ^ 1024) None) (IntTrack 1 None) = Inl OverflowError"
proof -
  have general: "IntTrack_truediv (IntTrack x s) (IntTrack y t)
        = (case round64 (of_int x / of_int y) of
             Inl e \<Rightarrow> Inl OverflowError
           | Inr f \<Rightarrow>
               Inr (IntTrack (trunc f)
                 (Some (div_nt (case s of Some u \<Rightarrow> u | None \<Rightarrow> IntTrack x None)
                               (case t of Some u \<Rightarrow> u | None \<Rightarrow> IntTrack y None)))))"
    if "y \<noteq> 0"
    using that
    by (cases s; cases t)
       (auto simp: IntTrack_truediv_def partial_def binary_op_def int_ty_def
          int_truediv_def IntTrack_new_def dest: round64_error split: sum.splits)
  have bounded: "IntTrack_truediv (IntTrack x s) (IntTrack y t)
        = Inr (IntTrack (trunc (of_int x / of_int y))
            (Some (div_nt (case s of Some u \<Rightarrow> u | None \<Rightarrow> IntTrack x None)
                          (case t of Some u \<Rightarrow> u | None \<Rightarrow> IntTrack y None))))"
    if "y \<noteq> 0" "\<bar>x\<bar> < 2 ^ 53"
  proof -
    from round64_trunc [OF that] obtain g
      where "round64 (of_int x / of_int y) = Inr g" "trunc g = trunc (of_int x / of_int y)"
      by blast
    with general [OF that(1)] show ?thesis by simp
  qed
  have overflow: "IntTrack_truediv (IntTrack (2 ^ 1024) None) (IntTrack 1 None) = Inl OverflowError"
    using round64_2_1024
    by (simp add: IntTrack_truediv_def partial_def binary_op_def int_ty_def int_truediv_def)
  from general bounded overflow show ?thesis by blast
qed

theorem IntTrack_truediv_truncates_witness:
  "(3 :: int) \<noteq> 0 \<and> \<bar>7 :: int\<bar> < 2 ^ 53
   \<and> round64 (of_int 7 / of_int 3) = Inr (5254199565265579 / 2251799813685248)
   \<and> IntTrack_truediv (IntTrack 7 None) (IntTrack 3 None)
     = Inr (IntTrack 2 (Some (div_nt (IntTrack 7 None) (IntTrack 3 None))))
   \<and> IntTrack_truediv (IntTrack (- 7) None) (IntTrack 3 None)
     = Inr (IntTrack (- 2) (Some (div_nt (IntTrack (- 7) None) (IntTrack 3 None))))"
  using IntTrack_truediv_truncates [of 3 7 None None]
        IntTrack_truediv_truncates [of 3 "- 7" None None]
  by (simp add: round64_7_3 round64_neg trunc_def floor_numeral_div ceiling_def)

subsection \<open>Conversion of the operands of the integer class\<close>

lemma IntTrack_binary_converts:
  "int_value lhs = Inr a \<Longrightarrow> int_value rhs = Inr b \<Longrightarrow>
   binary_op int_ty operator operation lhs rhs
     = (case operator (PInt a) (PInt b) of
          Inl e \<Rightarrow> Inl e
        | Inr result \<Rightarrow>
            IntTrack_new result
              (Some (operation (case attr_operations lhs of Some t \<Rightarrow> t | None \<Rightarrow> lhs)
                               (case attr_operations rhs of Some t \<Rightarrow> t | None \<Rightarrow> rhs))))"
  by (cases lhs; cases rhs)
     (auto simp: binary_op_def int_ty_def split: option.splits sum.splits)

text \<open>
  C10. Every method of \<open>IntTrack\<close>, direct or reflected, converts both operands with
  \<open>int\<close> and computes on the converted integers, while the node records each operand as
  it was passed (or its tree). So \<^verbatim>\<open>track(5) + 2.5\<close> has the value 7, and its tree
  \<^verbatim>\<open>add(5, 2.5)\<close> describes 7.5. A reflected method is called on the right operand of
  the expression: \<open>IntTrack_radd rhs lhs\<close> is \<^verbatim>\<open>rhs.__radd__(lhs)\<close>.
\<close>

theorem int_kind_converts_operands:
  "(int_value lhs = Inr a \<longrightarrow> int_value rhs = Inr b \<longrightarrow>
      IntTrack_add lhs rhs
        = Inr (IntTrack (a + b)
            (Some (add (case attr_operations lhs of Some t \<Rightarrow> t | None \<Rightarrow> lhs)
                       (case attr_operations rhs of Some t \<Rightarrow> t | None \<Rightarrow> rhs))))
      \<and> IntTrack_sub lhs rhs
        = Inr (IntTrack (a - b)
            (Some (sub (case attr_operations lhs of Some t \<Rightarrow> t | None \<Rightarrow> lhs)
                       (case attr_operations rhs of Some t \<Rightarrow> t | None \<Rightarrow> rhs))))
      \<and> IntTrack_mul lhs rhs
        = Inr (IntTrack (a * b)
            (Some (mul (case attr_operations lhs of Some t \<Rightarrow> t | None \<Rightarrow> lhs)
                       (case attr_operations rhs of Some t \<Rightarrow> t | None \<Rightarrow> rhs))))
      \<and> (b \<noteq> 0 \<longrightarrow> IntTrack_mod lhs rhs
        = Inr (IntTrack (a mod b)
            (Some (mod_nt (case attr_operations lhs of Some t \<Rightarrow> t | None \<Rightarrow> lhs)
                          (case attr_operations rhs of Some t \<Rightarrow> t | None \<Rightarrow> rhs)))))
      \<and> (b \<noteq> 0 \<longrightarrow> IntTrack_truediv lhs rhs
        = (case round64 (of_int a / of_int b) of
             Inl e \<Rightarrow> Inl e
           | Inr f \<Rightarrow>
               Inr (IntTrack (trunc f)
                 (Some (div_nt (case attr_operations lhs of Some t \<Rightarrow> t | None \<Rightarrow> lhs)
                               (case attr_operations rhs of Some t \<Rightarrow> t | None \<Rightarrow> rhs))))))
      \<and> (b = 0 \<longrightarrow> IntTrack_mod lhs rhs = Inl ZeroDivisionError
                  \<and> IntTrack_truediv lhs rhs = Inl ZeroDivisionError)
      \<and> IntTrack_radd rhs lhs = IntTrack_add lhs rhs
      \<and> IntTrack_rsub rhs lhs = IntTrack_sub lhs rhs
      \<and> IntTrack_rmul rhs lhs = IntTrack_mul lhs rhs
      \<and> IntTrack_rmod rhs lhs = IntTrack_mod lhs rhs
      \<and> IntTrack_rtruediv rhs lhs = IntTrack_truediv lhs rhs)
   \<and> (int_value lhs = Inr a \<longrightarrow>
      IntTrack_neg lhs
        = Inr (IntTrack (- a)
            (Some (neg (case attr_operations lhs of Some t \<Rightarrow> t | None \<Rightarrow> lhs))))
      \<and> IntTrack_abs lhs
        = Inr (IntTrack \<bar>a\<bar>
            (Some (abs_nt (case attr_operations lhs of Some t \<Rightarrow> t | None \<Rightarrow> lhs)))))
   \<and> IntTrack_add (IntTrack 5 None) (PFloat (5 / 2))
        = Inr (IntTrack 7 (Some (add (IntTrack 5 None) (PFloat (5 / 2)))))
   \<and> tree_value (add (IntTrack 5 None) (PFloat (5 / 2))) = Some (15 / 2)"
proof -
  have bin: "IntTrack_add lhs rhs
        = Inr (IntTrack (a + b)
            (Some (add (case attr_operations lhs of Some t \<Rightarrow> t | None \<Rightarrow> lhs)
                       (case attr_operations rhs of Some t \<Rightarrow> t | None \<Rightarrow> rhs))))
      \<and> IntTrack_sub lhs rhs
        = Inr (IntTrack (a - b)
            (Some (sub (case attr_operations lhs of Some t \<Rightarrow> t | None \<Rightarrow> lhs)
                       (case attr_operations rhs of Some t \<Rightarrow> t | None \<Rightarrow> rhs))))
      \<and> IntTrack_mul lhs rhs
        = Inr (IntTrack (a * b)
            (Some (mul (case attr_operations lhs of Some t \<Rightarrow> t | None \<Rightarrow> lhs)
                       (case attr_operations rhs of Some t \<Rightarrow> t | None \<Rightarrow> rhs))))
      \<and> (b \<noteq> 0 \<longrightarrow> IntTrack_mod lhs rhs
        = Inr (IntTrack (a mod b)
            (Some (mod_nt (case attr_operations lhs of Some t \<Rightarrow> t | None \<Rightarrow> lhs)
                          (case attr_operations rhs of Some t \<Rightarrow> t | None \<Rightarrow> rhs)))))
      \<and> (b \<noteq> 0 \<longrightarrow> IntTrack_truediv lhs rhs
        = (case round64 (of_int a / of_int b) of
             Inl e \<Rightarrow> Inl e
           | Inr f \<Rightarrow>
               Inr (IntTrack (trunc f)
                 (Some (div_nt (case attr_operations lhs of Some t \<Rightarrow> t | None \<Rightarrow> lhs)
                               (case attr_operations rhs of Some t \<Rightarrow> t | None \<Rightarrow> rhs))))))
      \<and> (b = 0 \<longrightarrow> IntTrack_mod lhs rhs = Inl ZeroDivisionError
                  \<and> IntTrack_truediv lhs rhs = Inl ZeroDivisionError)"
    if "int_value lhs = Inr a" "int_value rhs = Inr b"
    by (auto simp: IntTrack_add_def IntTrack_sub_def IntTrack_mul_def IntTrack_mod_def
          IntTrack_truediv_def partial_def IntTrack_binary_converts [OF that]
          int_mod_def int_truediv_def IntTrack_new_def split: sum.splits)
  have refl: "IntTrack_radd rhs lhs = IntTrack_add lhs rhs
      \<and> IntTrack_rsub rhs lhs = IntTrack_sub lhs rhs
      \<and> IntTrack_rmul rhs lhs = IntTrack_mul lhs rhs
      \<and> IntTrack_rmod rhs lhs = IntTrack_mod lhs rhs
      \<and> IntTrack_rtruediv rhs lhs = IntTrack_truediv lhs rhs"
    by (simp add: IntTrack_radd_def IntTrack_rsub_def IntTrack_rmul_def IntTrack_rmod_def
          IntTrack_rtruediv_def IntTrack_add_def IntTrack_sub_def IntTrack_mul_def
          IntTrack_mod_def IntTrack_truediv_def partial_def binary_rop_def)
  have un: "int_value lhs = Inr a \<longrightarrow>
      IntTrack_neg lhs
        = Inr (IntTrack (- a)
            (Some (neg (case attr_operations lhs of Some t \<Rightarrow> t | None \<Rightarrow> lhs))))
      \<and> IntTrack_abs lhs
        = Inr (IntTrack \<bar>a\<bar>
            (Some (abs_nt (case attr_operations lhs of Some t \<Rightarrow> t | None \<Rightarrow> lhs))))"
    by (cases lhs)
       (auto simp: IntTrack_neg_def IntTrack_abs_def partial_def unary_op_def int_ty_def
          IntTrack_new_def split: option.splits)
  have ex: "IntTrack_add (IntTrack 5 None) (PFloat (5 / 2))
        = Inr (IntTrack 7 (Some (add (IntTrack 5 None) (PFloat (5 / 2)))))
      \<and> tree_value (add (IntTrack 5 None) (PFloat (5 / 2))) = Some (15 / 2)"
    by (simp add: IntTrack_add_def partial_def binary_op_def int_ty_def IntTrack_new_def
          trunc_def floor_numeral_div add_def)
  from bin refl un ex show ?thesis by blast
qed

theorem int_kind_converts_operands_witness:
  "int_value (IntTrack 5 None) = Inr 5 \<and> int_value (PFloat (5 / 2)) = Inr 2
   \<and> IntTrack_mul (IntTrack 5 None) (PFloat (5 / 2))
     = Inr (IntTrack 10 (Some (mul (IntTrack 5 None) (PFloat (5 / 2)))))
   \<and> IntTrack_mod (IntTrack 5 None) (PFloat (5 / 2))
     = Inr (IntTrack 1 (Some (mod_nt (IntTrack 5 None) (PFloat (5 / 2)))))
   \<and> IntTrack_truediv (IntTrack 5 None) (PFloat (5 / 2))
     = Inr (IntTrack 2 (Some (div_nt (IntTrack 5 None) (PFloat (5 / 2)))))
   \<and> IntTrack_rsub (IntTrack 5 None) (PFloat (5 / 2))
     = Inr (IntTrack (- 3) (Some (sub (PFloat (5 / 2)) (IntTrack 5 None))))
   \<and> IntTrack_neg (IntTrack 5 None) = Inr (IntTrack (- 5) (Some (neg (IntTrack 5 None))))"
  using int_kind_converts_operands [of "IntTrack 5 None" 5 "PFloat (5 / 2)" 2]
        int_kind_converts_operands [of "PFloat (5 / 2)" 2 "IntTrack 5 None" 5]
  by (simp add: trunc_def floor_numeral_div round64_5_2)

subsection \<open>The factory\<close>

text \<open>
  C9. For every number \<open>n\<close> (any value that is not a tuple), \<open>track n\<close> returns a tracked
  value whose attribute \<open>operations\<close> is \<open>None\<close>; it is an instance of \<open>DecimalTrack\<close>
  exactly when \<open>n\<close> is a Decimal, and an instance of \<open>IntTrack\<close> otherwise.
\<close>

theorem track_fresh:
  "\<not> isinstance_tuple n \<Longrightarrow>
   \<exists>v. track n = Inr v \<and> hasattr_operations v \<and> attr_operations v = None
     \<and> class_name v = (if isinstance_Decimal n then ''DecimalTrack'' else ''IntTrack'')"
  by (cases n) (simp_all add: track_def IntTrack_new_def DecimalTrack_new_def)

theorem track_fresh_witness:
  "\<not> isinstance_tuple (PInt 5) \<and> track (PInt 5) = Inr (IntTrack 5 None)
   \<and> track (PDec (Dec False 5 0)) = Inr (DecimalTrack (Dec False 5 0) None)"
  using track_fresh [of "PInt 5"]
  by (simp add: track_def IntTrack_new_def DecimalTrack_new_def)

end
